theory Spec2Isabelle
  imports Main
begin

section \<open>The WebSocket blueprint (blueprints/websocket.py)\<close>

text \<open>
  The blueprint is a layer of Flask view functions. Each view reads the session and the
  request, calls functions of other modules and turns their results into an HTTP
  response. The embedding keeps the control flow of every view; the functions of the
  other modules are fields of an environment record, and every call of one of them is
  written to a trace, so that "this function is not called" is the statement that the
  trace does not hold the call.
\<close>

subsection \<open>Python values\<close>

text \<open>
  The values that travel through the views are what \<open>request.json\<close> delivers and what
  \<open>jsonify\<close> accepts: \<open>None\<close>, booleans, numbers, strings, lists and dicts with string
  keys. A dict is the association list of its items in insertion order, its keys
  distinct, read with \<open>map_of\<close>; numbers are the integers (a float takes the same
  branches as an integer everywhere below). A \<open>char\<close> stands for one code point
  below 256.
\<close>

datatype json =
    JNull
  | JBool bool
  | JNum int
  | JStr string
  | JArr "json list"
  | JObj "(string \<times> json) list"

text \<open>
  Exceptions. \<open>AttributeError\<close>, \<open>TypeError\<close> and \<open>ValueError\<close> are raised by the
  operations of the views themselves; \<open>HTTPException c\<close> is the framework refusing the
  request body with status \<open>c\<close>; \<open>Exception m\<close> is an exception raised inside a function
  of another module, \<open>m\<close> being its \<open>str(e)\<close>.
\<close>

datatype exn =
    AttributeError
  | TypeError
  | ValueError
  | HTTPException int
  | Exception string

text \<open>Truth value testing, as \<open>if x:\<close> and \<open>if not x:\<close> do it.\<close>

fun py_truthy :: "json \<Rightarrow> bool" where
  "py_truthy JNull = False"
| "py_truthy (JBool b) = b"
| "py_truthy (JNum n) = (n \<noteq> 0)"
| "py_truthy (JStr s) = (s \<noteq> [])"
| "py_truthy (JArr xs) = (xs \<noteq> [])"
| "py_truthy (JObj kvs) = (kvs \<noteq> [])"

text \<open>A value that is a string or \<open>None\<close>: \<open>None\<close> and the empty string are false.\<close>

fun str_truthy :: "string option \<Rightarrow> bool" where
  "str_truthy None = False"
| "str_truthy (Some s) = (s \<noteq> [])"

text \<open>\<open>d.get(k, default)\<close>: only a dict has the method.\<close>

fun py_get :: "json \<Rightarrow> string \<Rightarrow> json \<Rightarrow> exn + json" where
  "py_get (JObj kvs) k d = Inr (case map_of kvs k of None \<Rightarrow> d | Some v \<Rightarrow> v)"
| "py_get _ k d = Inl AttributeError"

text \<open>
  \<open>for s in x\<close>: a list yields its elements, a string its characters (strings of length
  one), a dict its keys; nothing else is iterable.
\<close>

fun py_iter :: "json \<Rightarrow> exn + json list" where
  "py_iter (JArr xs) = Inr xs"
| "py_iter (JStr t) = Inr (map (\<lambda>c. JStr [c]) t)"
| "py_iter (JObj kvs) = Inr (map (\<lambda>kv. JStr (fst kv)) kvs)"
| "py_iter _ = Inl TypeError"

text \<open>
  \<open>':' in s\<close>: the substring test on a string (for a pattern of one character, the
  membership of that character), the membership test on a list, the key test on a
  dict; a \<open>TypeError\<close> on anything else.
\<close>

fun contains_colon :: "json \<Rightarrow> exn + bool" where
  "contains_colon (JStr t) = Inr (CHR '':'' \<in> set t)"
| "contains_colon (JArr xs) = Inr (JStr '':'' \<in> set xs)"
| "contains_colon (JObj kvs) = Inr ('':'' \<in> set (map fst kvs))"
| "contains_colon _ = Inl TypeError"

text \<open>
  \<open>t.split(sep, 1)\<close> for a separator of one character: at most one split, at the
  first occurrence of the separator.
\<close>

definition split1 :: "char \<Rightarrow> string \<Rightarrow> string list" where
  "split1 sep t =
     (if sep \<in> set t
      then [takeWhile (\<lambda>c. c \<noteq> sep) t, tl (dropWhile (\<lambda>c. c \<noteq> sep) t)]
      else [t])"

text \<open>
  \<open>str.strip()\<close> removes the white space at both ends. \<open>py_isspace\<close> is Python's
  \<open>str.isspace\<close> on the code points below 256: TAB to CR, FS to US, the space, NEL and
  the no-break space.
\<close>

definition py_isspace :: "char \<Rightarrow> bool" where
  "py_isspace c =
     (let n = (of_char c :: nat)
      in (9 \<le> n \<and> n \<le> 13) \<or> (28 \<le> n \<and> n \<le> 32) \<or> n = 133 \<or> n = 160)"

definition strip :: "string \<Rightarrow> string" where
  "strip s = rev (dropWhile py_isspace (rev (dropWhile py_isspace s)))"

subsection \<open>The symbol loop of \<open>_get_broker_and_parse_symbols\<close>\<close>

text \<open>The dict \<open>{'exchange': e, 'symbol': y}\<close> that the loop appends.\<close>

definition entry :: "json \<Rightarrow> json \<Rightarrow> json" where
  "entry e y = JObj [(''exchange'', e), (''symbol'', y)]"

text \<open>
  One turn of the loop, for the element \<open>s\<close>: what is appended to \<open>parsed_symbols\<close>,
  or the exception that ends the loop. \<open>s.split\<close> exists on a string only, and the
  assignment \<open>exchange, symbol = ...\<close> needs a list of exactly two items.
\<close>

definition parse_symbol :: "json \<Rightarrow> exn + json" where
  "parse_symbol s =
     (case contains_colon s of
        Inl e \<Rightarrow> Inl e
      | Inr True \<Rightarrow>
          (case s of
             JStr t \<Rightarrow>
               (case split1 (CHR '':'') t of
                  [exchange, symbol] \<Rightarrow> Inr (entry (JStr exchange) (JStr symbol))
                | _ \<Rightarrow> Inl ValueError)
           | _ \<Rightarrow> Inl AttributeError)
      | Inr False \<Rightarrow> Inr (entry (JStr ''NSE'') s))"

text \<open>The loop, with \<open>parsed_symbols\<close> as its accumulator.\<close>

fun parse_loop :: "json list \<Rightarrow> json list \<Rightarrow> exn + json list" where
  "parse_loop [] parsed_symbols = Inr parsed_symbols"
| "parse_loop (s # rest) parsed_symbols =
     (case parse_symbol s of
        Inl e \<Rightarrow> Inl e
      | Inr d \<Rightarrow> parse_loop rest (parsed_symbols @ [d]))"

text \<open>Lines 93 to 102: \<open>parsed_symbols = []\<close> and the loop over \<open>symbols_list\<close>.\<close>

definition parse_symbols :: "json \<Rightarrow> exn + json list" where
  "parse_symbols symbols_list =
     (case py_iter symbols_list of
        Inl e \<Rightarrow> Inl e
      | Inr xs \<Rightarrow> parse_loop xs [])"

subsection \<open>Requests and responses\<close>

text \<open>
  Of a request the views read \<open>session.get('user')\<close> (a string or \<open>None\<close>),
  \<open>request.args\<close> and \<open>request.json\<close>; evaluating \<open>request.json\<close> may raise.
\<close>

record request =
  session_user :: "string option"
  req_args :: "(string \<times> string) list"
  req_json :: "exn + json"

datatype body = Json json | Template string | Redirect string

record response =
  resp_status :: int
  resp_body :: body

definition jsonify :: "json \<Rightarrow> response" where
  "jsonify v = \<lparr>resp_status = 200, resp_body = Json v\<rparr>"

definition render_template :: "string \<Rightarrow> response" where
  "render_template name = \<lparr>resp_status = 200, resp_body = Template name\<rparr>"

text \<open>A view that returns the pair \<open>(response, code)\<close> sets the status of the response.\<close>

definition with_status :: "response \<Rightarrow> int \<Rightarrow> response" where
  "with_status r code = r\<lparr>resp_status := code\<rparr>"

definition error_body :: "json \<Rightarrow> json" where
  "error_body msg = JObj [(''error'', msg)]"

text \<open>\<open>request.args.get(k, default)\<close> and \<open>request.args.get(k)\<close>.\<close>

definition args_get :: "request \<Rightarrow> string \<Rightarrow> string \<Rightarrow> string" where
  "args_get req k d = (case map_of (req_args req) k of None \<Rightarrow> d | Some v \<Rightarrow> v)"

definition args_get_opt :: "request \<Rightarrow> string \<Rightarrow> string option" where
  "args_get_opt req k = map_of (req_args req) k"

text \<open>\<open>str(x)\<close> inside an f-string, and the JSON form, of a string or \<open>None\<close>.\<close>

fun py_str :: "string option \<Rightarrow> string" where
  "py_str None = ''None''"
| "py_str (Some s) = s"

fun str_json :: "string option \<Rightarrow> json" where
  "str_json None = JNull"
| "str_json (Some s) = JStr s"

subsection \<open>The other modules\<close>

text \<open>
  One row of a search result: the five attributes the search view reads.
\<close>

record sym_token =
  r_symbol :: json
  r_name :: json
  r_exchange :: json
  r_token :: json
  r_instrumenttype :: json

text \<open>
  The functions imported from \<open>utils.session\<close>, \<open>services.websocket_service\<close>,
  \<open>database.symbol\<close> and \<open>database.auth_db\<close> are not part of the blueprint; they are the
  fields of \<open>env\<close>. Each returns \<open>Inr\<close> its value or \<open>Inl m\<close> when it raises an exception
  (an instance of \<open>Exception\<close>) whose \<open>str\<close> is \<open>m\<close>. A view calls each of them at most
  once, so a function of the arguments describes it for one request. The lookups
  return a string or \<open>None\<close>; the three-valued results are
  \<open>(success, payload, status code)\<close>.

  \<open>check_session_validity\<close> is the decorator of every route. Its body is in
  \<open>utils/session.py\<close>, so nothing is fixed about when it lets a request through:
  it is \<open>Some r\<close> when it answers the request itself with \<open>r\<close>, \<open>None\<close> when it
  lets the view run.
\<close>

record env =
  check_session_validity :: "request \<Rightarrow> response option"
  register_market_data_callback :: "string option \<Rightarrow> string + unit"
  enhanced_search_symbols :: "string \<Rightarrow> string option \<Rightarrow> string + sym_token list"
  get_websocket_subscriptions :: "string option \<Rightarrow> string + (bool \<times> json \<times> int)"
  get_websocket_status :: "string option \<Rightarrow> string + (bool \<times> json \<times> int)"
  get_api_key_for_tradingview :: "string option \<Rightarrow> string + string option"
  get_broker_name :: "string option \<Rightarrow> string + string option"
  subscribe_to_symbols ::
    "string option \<Rightarrow> string option \<Rightarrow> json list option \<Rightarrow> string + (bool \<times> json \<times> int)"
  unsubscribe_from_symbols ::
    "string option \<Rightarrow> string option \<Rightarrow> json list option \<Rightarrow> string + (bool \<times> json \<times> int)"

text \<open>
  The trace: one event for each call of a function of another module, with its
  arguments (for the callback registration, the user and the room the callback emits
  to), and for each log line and each room joined.
\<close>

datatype call =
    Register_market_data_callback "string option" string
  | Enhanced_search_symbols string "string option"
  | Get_websocket_subscriptions "string option"
  | Get_websocket_status "string option"
  | Get_api_key_for_tradingview "string option"
  | Get_broker_name "string option"
  | Subscribe_to_symbols "string option" "string option" "json list option"
  | Unsubscribe_from_symbols "string option" "string option" "json list option"
  | Logger_error string
  | Logger_info string
  | Join_room string

text \<open>
  A computation returns its value or the exception that ended it, and the calls it
  made up to there.
\<close>

type_synonym 'a io = "(exn + 'a) \<times> call list"

definition ret :: "'a \<Rightarrow> 'a io" where
  "ret x = (Inr x, [])"

definition lift :: "exn + 'a \<Rightarrow> 'a io" where
  "lift r = (r, [])"

definition call :: "call \<Rightarrow> string + 'a \<Rightarrow> 'a io" where
  "call c r = (case r of Inl m \<Rightarrow> Inl (Exception m) | Inr x \<Rightarrow> Inr x, [c])"

definition and_then :: "'a io \<Rightarrow> ('a \<Rightarrow> 'b io) \<Rightarrow> 'b io" where
  "and_then m f =
     (case m of
        (Inl e, t) \<Rightarrow> (Inl e, t)
      | (Inr x, t) \<Rightarrow> (case f x of (r, t') \<Rightarrow> (r, t @ t')))"

subsection \<open>The views\<close>

text \<open>\<open>index\<close>, lines 25 to 36.\<close>

definition index_view :: "env \<Rightarrow> request \<Rightarrow> response io" where
  "index_view env req =
     (let username = session_user req
      in and_then
           (if str_truthy username
            then call (Register_market_data_callback username (''user_'' @ py_str username))
                      (register_market_data_callback env username)
            else ret ())
           (\<lambda>_. ret (render_template ''websocket.html'')))"

text \<open>\<open>handle_connect\<close>, lines 39 to 44.\<close>

definition handle_connect :: "request \<Rightarrow> unit io" where
  "handle_connect req =
     (let username = session_user req
      in if str_truthy username
         then (Inr (),
               [Join_room (''user_'' @ py_str username),
                Logger_info (''User '' @ py_str username
                   @ '' connected to Socket.IO and joined room user_'' @ py_str username)])
         else ret ())"

text \<open>
  \<open>search\<close>, lines 48 to 67. The \<open>try\<close> block holds the call and the building of the
  answer; the \<open>except\<close> branch logs and answers 500.
\<close>

definition result_json :: "sym_token \<Rightarrow> json" where
  "result_json r =
     JObj [(''symbol'', r_symbol r), (''name'', r_name r), (''exchange'', r_exchange r),
           (''token'', r_token r), (''instrumenttype'', r_instrumenttype r)]"

definition search_view :: "env \<Rightarrow> request \<Rightarrow> response io" where
  "search_view env req =
     (let query = strip (args_get req ''q'' []);
          exchange = args_get_opt req ''exchange''
      in if query = [] then ret (jsonify (JArr []))
         else (case enhanced_search_symbols env query exchange of
                 Inr results \<Rightarrow>
                   (Inr (jsonify (JArr (map result_json results))),
                    [Enhanced_search_symbols query exchange])
               | Inl m \<Rightarrow>
                   (Inr (with_status (jsonify (error_body (JStr m))) 500),
                    [Enhanced_search_symbols query exchange,
                     Logger_error (''Error searching symbols: '' @ m)])))"

text \<open>\<open>get_subscriptions\<close>, lines 71 to 81.\<close>

definition get_subscriptions_view :: "env \<Rightarrow> request \<Rightarrow> response io" where
  "get_subscriptions_view env req =
     (let username = session_user req
      in if \<not> str_truthy username
         then ret (with_status (jsonify (error_body (JStr ''User not logged in''))) 401)
         else and_then
                (call (Get_websocket_subscriptions username)
                      (get_websocket_subscriptions env username))
                (\<lambda>(success, data, code).
                   if success then ret (jsonify data)
                   else ret (with_status (jsonify data) code)))"

text \<open>
  \<open>_get_broker_and_parse_symbols\<close>, lines 83 to 103. It returns the triple
  \<open>(broker, parsed_symbols, error)\<close>, each component a value or \<open>None\<close>.
\<close>

definition get_broker_and_parse_symbols ::
  "env \<Rightarrow> string option \<Rightarrow> json \<Rightarrow> (string option \<times> json list option \<times> string option) io" where
  "get_broker_and_parse_symbols env username symbols_list =
     and_then
       (call (Get_api_key_for_tradingview username) (get_api_key_for_tradingview env username))
       (\<lambda>api_key.
          if \<not> str_truthy api_key then ret (None, None, Some ''API Key not found'')
          else and_then
                 (call (Get_broker_name api_key) (get_broker_name env api_key))
                 (\<lambda>broker.
                    if \<not> str_truthy broker then ret (None, None, Some ''Broker not found'')
                    else and_then
                           (lift (parse_symbols symbols_list))
                           (\<lambda>parsed_symbols. ret (broker, Some parsed_symbols, None))))"

text \<open>\<open>subscribe\<close>, lines 107 to 124.\<close>

definition subscribe_view :: "env \<Rightarrow> request \<Rightarrow> response io" where
  "subscribe_view env req =
     (let username = session_user req
      in if \<not> str_truthy username
         then ret (with_status (jsonify (error_body (JStr ''User not logged in''))) 401)
         else and_then (lift (req_json req)) (\<lambda>data.
              and_then (lift (py_get data ''symbols'' (JArr []))) (\<lambda>symbols.
                if \<not> py_truthy symbols
                then ret (with_status (jsonify (error_body (JStr ''No symbols provided''))) 400)
                else and_then (get_broker_and_parse_symbols env username symbols)
                       (\<lambda>(broker, parsed_symbols, error).
                          if str_truthy error
                          then ret (with_status (jsonify (error_body (str_json error))) 400)
                          else and_then
                                 (call (Subscribe_to_symbols username broker parsed_symbols)
                                       (subscribe_to_symbols env username broker parsed_symbols))
                                 (\<lambda>(success, response, code).
                                    ret (with_status (jsonify response) code))))))"

text \<open>\<open>unsubscribe\<close>, lines 128 to 145.\<close>

definition unsubscribe_view :: "env \<Rightarrow> request \<Rightarrow> response io" where
  "unsubscribe_view env req =
     (let username = session_user req
      in if \<not> str_truthy username
         then ret (with_status (jsonify (error_body (JStr ''User not logged in''))) 401)
         else and_then (lift (req_json req)) (\<lambda>data.
              and_then (lift (py_get data ''symbols'' (JArr []))) (\<lambda>symbols.
                if \<not> py_truthy symbols
                then ret (with_status (jsonify (error_body (JStr ''No symbols provided''))) 400)
                else and_then (get_broker_and_parse_symbols env username symbols)
                       (\<lambda>(broker, parsed_symbols, error).
                          if str_truthy error
                          then ret (with_status (jsonify (error_body (str_json error))) 400)
                          else and_then
                                 (call (Unsubscribe_from_symbols username broker parsed_symbols)
                                       (unsubscribe_from_symbols env username broker parsed_symbols))
                                 (\<lambda>(success, response, code).
                                    ret (with_status (jsonify response) code))))))"

text \<open>\<open>status\<close>, lines 149 to 156.\<close>

definition status_view :: "env \<Rightarrow> request \<Rightarrow> response io" where
  "status_view env req =
     (let username = session_user req
      in if \<not> str_truthy username
         then ret (with_status (jsonify (error_body (JStr ''User not logged in''))) 401)
         else and_then
                (call (Get_websocket_status username) (get_websocket_status env username))
                (\<lambda>(success, data, code). ret (with_status (jsonify data) code)))"

subsection \<open>The routes\<close>

text \<open>
  Every view is registered under \<open>@check_session_validity\<close>: the decorator answers the
  request itself or runs the view.
\<close>

definition guarded :: "(env \<Rightarrow> request \<Rightarrow> response io) \<Rightarrow> env \<Rightarrow> request \<Rightarrow> response io" where
  "guarded view env req =
     (case check_session_validity env req of
        Some r \<Rightarrow> ret r
      | None \<Rightarrow> view env req)"

definition index :: "env \<Rightarrow> request \<Rightarrow> response io" where
  "index = guarded index_view"

definition search :: "env \<Rightarrow> request \<Rightarrow> response io" where
  "search = guarded search_view"

definition get_subscriptions :: "env \<Rightarrow> request \<Rightarrow> response io" where
  "get_subscriptions = guarded get_subscriptions_view"

definition subscribe :: "env \<Rightarrow> request \<Rightarrow> response io" where
  "subscribe = guarded subscribe_view"

definition unsubscribe :: "env \<Rightarrow> request \<Rightarrow> response io" where
  "unsubscribe = guarded unsubscribe_view"

definition status :: "env \<Rightarrow> request \<Rightarrow> response io" where
  "status = guarded status_view"

subsection \<open>Reading the routes\<close>

text \<open>
  A request reaches the logged-in part of a view when the decorator lets it through
  and the session holds a user name that is not empty.
\<close>

definition logged_in :: "env \<Rightarrow> request \<Rightarrow> bool" where
  "logged_in env req \<longleftrightarrow> check_session_validity env req = None \<and> str_truthy (session_user req)"

text \<open>The answer \<open>jsonify({'error': msg}), code\<close>.\<close>

definition error_response :: "string \<Rightarrow> int \<Rightarrow> response" where
  "error_response msg code = \<lparr>resp_status = code, resp_body = Json (JObj [(''error'', JStr msg)])\<rparr>"

subsection \<open>The specification's words for the symbol loop\<close>

text \<open>
  What one string becomes: the dict with the keys \<open>exchange\<close> and \<open>symbol\<close>, the
  string split at its first colon into the two values, or the exchange \<open>NSE\<close> and the
  whole string when there is no colon.
\<close>

definition spec_entry :: "string \<Rightarrow> json \<Rightarrow> bool" where
  "spec_entry s d =
     (if CHR '':'' \<in> set s
      then (\<exists>e y. s = e @ CHR '':'' # y \<and> CHR '':'' \<notin> set e
                 \<and> d = JObj [(''exchange'', JStr e), (''symbol'', JStr y)])
      else d = JObj [(''exchange'', JStr ''NSE''), (''symbol'', JStr s)])"

text \<open>The closed form of one turn of the loop on a string.\<close>

definition parse_str :: "string \<Rightarrow> json" where
  "parse_str s =
     (if CHR '':'' \<in> set s
      then entry (JStr (takeWhile (\<lambda>c. c \<noteq> CHR '':'') s))
                 (JStr (tl (dropWhile (\<lambda>c. c \<noteq> CHR '':'') s)))
      else entry (JStr ''NSE'') (JStr s))"

subsection \<open>The decorator, as the specification describes it\<close>

text \<open>
  Modelled from the spec: the decorator \<open>check_session_validity\<close>, whose body is in
  \<open>utils/session.py\<close> and not in the blueprint. The specification delegates
  authentication to this session-validity check and says of the routes behind it:
  "An unauthenticated request to any session-guarded route returns 401 and performs
  no collaborator calls". Hence an answer that the decorator gives itself to a
  request without a session user has status 401.
\<close>

definition spec_refusal_status :: "env \<Rightarrow> bool" where
  "spec_refusal_status env \<longleftrightarrow>
     (\<forall>req r. \<not> str_truthy (session_user req) \<and> check_session_validity env req = Some r
        \<longrightarrow> resp_status r = 401)"

text \<open>
  Modelled from the spec: the same decorator of \<open>utils/session.py\<close>, as the check that
  authenticates ("session required" on every route, authentication "delegated to a
  session-validity check"): it answers every request without a session user itself,
  with status 401, and so no such request reaches a view.
\<close>

definition spec_check_session_validity :: "env \<Rightarrow> bool" where
  "spec_check_session_validity env \<longleftrightarrow>
     (\<forall>req. \<not> str_truthy (session_user req)
        \<longrightarrow> (\<exists>r. check_session_validity env req = Some r \<and> resp_status r = 401))"

subsection \<open>A concrete environment\<close>

text \<open>
  An environment and requests for the instances below. The decorator answers a
  request without a session user with 401 and lets every other request through;
  \<open>alice\<close> has an API key with a broker, \<open>carol\<close> a key without a broker, nobody else
  has a key; the search fails on the query \<open>boom\<close>.
\<close>

definition demo_env :: env where
  "demo_env =
     \<lparr>check_session_validity =
        (\<lambda>req. if str_truthy (session_user req) then None
              else Some \<lparr>resp_status = 401,
                         resp_body = Json (JObj [(''error'', JStr ''Session required'')])\<rparr>),
      register_market_data_callback = (\<lambda>u. Inr ()),
      enhanced_search_symbols = (\<lambda>q ex. if q = ''boom'' then Inl ''db down'' else Inr []),
      get_websocket_subscriptions =
        (\<lambda>u. if u = Some ''alice'' then Inr (True, JObj [(''subscriptions'', JArr [])], 200)
             else Inr (False, JObj [(''status'', JStr ''error'')], 503)),
      get_websocket_status = (\<lambda>u. Inr (True, JObj [(''connected'', JBool True)], 200)),
      get_api_key_for_tradingview =
        (\<lambda>u. if u = Some ''alice'' then Inr (Some ''key1'')
             else if u = Some ''carol'' then Inr (Some ''key3'')
             else Inr None),
      get_broker_name = (\<lambda>k. if k = Some ''key1'' then Inr (Some ''zerodha'') else Inr None),
      subscribe_to_symbols = (\<lambda>u b ps. Inr (False, JObj [(''status'', JStr ''partial'')], 207)),
      unsubscribe_from_symbols = (\<lambda>u b ps. Inr (True, JObj [(''status'', JStr ''ok'')], 200))\<rparr>"

definition post_request :: "string option \<Rightarrow> json \<Rightarrow> request" where
  "post_request u v = \<lparr>session_user = u, req_args = [], req_json = Inr v\<rparr>"

definition get_request :: "string option \<Rightarrow> (string \<times> string) list \<Rightarrow> request" where
  "get_request u as = \<lparr>session_user = u, req_args = as, req_json = Inl (HTTPException 415)\<rparr>"

section \<open>Properties\<close>

subsection \<open>The symbol loop\<close>

lemma split1_colon:
  "CHR '':'' \<in> set t \<Longrightarrow>
   split1 (CHR '':'') t = [takeWhile (\<lambda>c. c \<noteq> CHR '':'') t, tl (dropWhile (\<lambda>c. c \<noteq> CHR '':'') t)]"
  by (simp add: split1_def)

lemma first_colon_decomp:
  assumes "CHR '':'' \<in> set t"
  shows "t = takeWhile (\<lambda>c. c \<noteq> CHR '':'') t @ CHR '':'' # tl (dropWhile (\<lambda>c. c \<noteq> CHR '':'') t)"
proof -
  let ?d = "dropWhile (\<lambda>c. c \<noteq> CHR '':'') t"
  from assms have ne: "?d \<noteq> []" by (auto simp: dropWhile_eq_Nil_conv)
  then have "hd ?d = CHR '':''" using hd_dropWhile [of "\<lambda>c. c \<noteq> CHR '':''" t] by simp
  with ne have "?d = CHR '':'' # tl ?d" by (cases ?d) simp_all
  then show ?thesis using takeWhile_dropWhile_id [of "\<lambda>c. c \<noteq> CHR '':''" t] by simp
qed

lemma parse_symbol_str: "parse_symbol (JStr s) = Inr (parse_str s)"
  by (simp add: parse_symbol_def parse_str_def split1_colon)

lemma parse_loop_strs: "parse_loop (map JStr ss) acc = Inr (acc @ map parse_str ss)"
  by (induction ss arbitrary: acc) (simp_all add: parse_symbol_str)

lemma parse_symbols_strs: "parse_symbols (JArr (map JStr ss)) = Inr (map parse_str ss)"
  by (simp add: parse_symbols_def parse_loop_strs)

lemma spec_entry_parse_str: "spec_entry s (parse_str s)"
proof (cases "CHR '':'' \<in> set s")
  case True
  have "CHR '':'' \<notin> set (takeWhile (\<lambda>c. c \<noteq> CHR '':'') s)"
    by (auto dest: set_takeWhileD)
  with True first_colon_decomp [OF True] show ?thesis
    unfolding spec_entry_def parse_str_def entry_def by auto
next
  case False
  then show ?thesis by (simp add: spec_entry_def parse_str_def entry_def)
qed

subsection \<open>Computations\<close>

lemma and_then_Inr: "and_then (Inr x, t) f = (fst (f x), t @ snd (f x))"
  by (cases "f x") (simp add: and_then_def)

lemma and_then_Inl: "and_then (Inl e, t) f = (Inl e, t)"
  by (simp add: and_then_def)

lemma and_then_ret: "and_then (ret x) f = f x"
  by (cases "f x") (simp add: and_then_def ret_def)

lemma and_then_lift_Inr: "and_then (lift (Inr x)) f = f x"
  by (cases "f x") (simp add: and_then_def lift_def)

lemma and_then_lift_Inl: "and_then (lift (Inl e)) f = (Inl e, [])"
  by (simp add: and_then_def lift_def)

lemma and_then_call_Inr: "and_then (call c (Inr x)) f = (fst (f x), c # snd (f x))"
  by (cases "f x") (simp add: and_then_def call_def)

lemma and_then_call_Inl: "and_then (call c (Inl m)) f = (Inl (Exception m), [c])"
  by (simp add: and_then_def call_def)

lemmas io_simps =
  and_then_Inr and_then_Inl and_then_ret and_then_lift_Inr and_then_lift_Inl
  and_then_call_Inr and_then_call_Inl

lemma guarded_admitted:
  "check_session_validity env req = None \<Longrightarrow> guarded view env req = view env req"
  by (simp add: guarded_def)

lemma guarded_answered:
  "check_session_validity env req = Some r \<Longrightarrow> guarded view env req = (Inr r, [])"
  by (simp add: guarded_def ret_def)

lemmas response_simps = ret_def with_status_def jsonify_def error_body_def error_response_def

subsection \<open>The helper \<open>_get_broker_and_parse_symbols\<close>\<close>

lemma helper_no_key:
  "get_api_key_for_tradingview env u = Inr k \<Longrightarrow> \<not> str_truthy k \<Longrightarrow>
   get_broker_and_parse_symbols env u s =
     (Inr (None, None, Some ''API Key not found''), [Get_api_key_for_tradingview u])"
  by (simp add: get_broker_and_parse_symbols_def io_simps ret_def)

lemma helper_no_broker:
  "get_api_key_for_tradingview env u = Inr k \<Longrightarrow> str_truthy k \<Longrightarrow>
   get_broker_name env k = Inr b \<Longrightarrow> \<not> str_truthy b \<Longrightarrow>
   get_broker_and_parse_symbols env u s =
     (Inr (None, None, Some ''Broker not found''), [Get_api_key_for_tradingview u, Get_broker_name k])"
  by (simp add: get_broker_and_parse_symbols_def io_simps ret_def)

lemma helper_parsed:
  "get_api_key_for_tradingview env u = Inr k \<Longrightarrow> str_truthy k \<Longrightarrow>
   get_broker_name env k = Inr b \<Longrightarrow> str_truthy b \<Longrightarrow> parse_symbols s = Inr ps \<Longrightarrow>
   get_broker_and_parse_symbols env u s =
     (Inr (b, Some ps, None), [Get_api_key_for_tradingview u, Get_broker_name k])"
  by (simp add: get_broker_and_parse_symbols_def io_simps ret_def)

text \<open>Every run of the helper starts with the API key lookup, so it leaves a trace.\<close>

lemma helper_calls: "snd (get_broker_and_parse_symbols env u s) \<noteq> []"
  by (cases "get_api_key_for_tradingview env u")
     (simp_all add: get_broker_and_parse_symbols_def io_simps)

subsection \<open>The query and the decorator\<close>

lemma dropWhile_all: "\<forall>x\<in>set xs. P x \<Longrightarrow> dropWhile P xs = []"
  by (induction xs) simp_all

lemma strip_blank: "\<forall>c\<in>set s. py_isspace c \<Longrightarrow> strip s = []"
  by (simp add: strip_def dropWhile_all)

text \<open>
  When the decorator answers a request itself, every route returns that answer and
  calls nothing.
\<close>

lemma decorator_answer:
  assumes "check_session_validity env req = Some r"
  shows "index env req = (Inr r, [])" and "search env req = (Inr r, [])"
    and "get_subscriptions env req = (Inr r, [])" and "status env req = (Inr r, [])"
    and "subscribe env req = (Inr r, [])" and "unsubscribe env req = (Inr r, [])"
  using assms
  by (simp_all add: index_def search_def get_subscriptions_def status_def subscribe_def
        unsubscribe_def guarded_answered)

text \<open>
  What the views do themselves without a session user: four of them answer 401 and
  call nothing; \<open>index\<close> renders the page and registers no callback.
\<close>

lemma views_without_user:
  assumes "\<not> str_truthy (session_user req)"
  shows "get_subscriptions_view env req = (Inr (error_response ''User not logged in'' 401), [])"
    and "status_view env req = (Inr (error_response ''User not logged in'' 401), [])"
    and "subscribe_view env req = (Inr (error_response ''User not logged in'' 401), [])"
    and "unsubscribe_view env req = (Inr (error_response ''User not logged in'' 401), [])"
    and "index_view env req = (Inr (render_template ''websocket.html''), [])"
  using assms
  by (simp_all add: get_subscriptions_view_def status_view_def subscribe_view_def
        unsubscribe_view_def index_view_def io_simps response_simps)

text \<open>
  The views \<open>index\<close> and \<open>search\<close> have no answer with status 401 of their own: on
  these two routes a 401 can only be the decorator's.
\<close>

lemma index_view_status: "index_view env req = (Inr r, t) \<Longrightarrow> resp_status r = 200"
  by (cases "register_market_data_callback env (session_user req)")
     (auto simp: index_view_def io_simps ret_def render_template_def Let_def split: if_splits)

lemma search_view_status:
  "search_view env req = (Inr r, t) \<Longrightarrow> resp_status r = 200 \<or> resp_status r = 500"
  by (auto simp: search_view_def response_simps Let_def split: if_splits sum.splits)

lemma spec_check_refusal_status:
  "spec_check_session_validity env \<Longrightarrow> spec_refusal_status env"
  by (auto simp: spec_check_session_validity_def spec_refusal_status_def)

subsection \<open>The claims\<close>

text \<open>
  C1. For every list of symbol strings the loop returns a list of the same length and
  in the same order; an entry with a colon becomes the dict of its part before the
  first colon as \<open>exchange\<close> and its part after it as \<open>symbol\<close>, an entry without one
  the dict of \<open>NSE\<close> and the entry. When both lookups succeed this list is the
  \<open>parsed_symbols\<close> that \<open>_get_broker_and_parse_symbols\<close> returns. The list
  \<open>["NSE:INFY", "TCS"]\<close> becomes \<open>NSE\<close>/\<open>INFY\<close>, \<open>NSE\<close>/\<open>TCS\<close>.
\<close>

theorem parse_symbols_of_strings:
  "(\<exists>ps. parse_symbols (JArr (map JStr ss)) = Inr ps
        \<and> length ps = length ss
        \<and> (\<forall>i<length ss. spec_entry (ss ! i) (ps ! i))
        \<and> (\<forall>env username api_key broker.
              get_api_key_for_tradingview env username = Inr api_key \<and> str_truthy api_key
              \<and> get_broker_name env api_key = Inr broker \<and> str_truthy broker
              \<longrightarrow> fst (get_broker_and_parse_symbols env username (JArr (map JStr ss)))
                    = Inr (broker, Some ps, None)))
   \<and> parse_symbols (JArr [JStr ''NSE:INFY'', JStr ''TCS''])
       = Inr [JObj [(''exchange'', JStr ''NSE''), (''symbol'', JStr ''INFY'')],
              JObj [(''exchange'', JStr ''NSE''), (''symbol'', JStr ''TCS'')]]"
proof (intro conjI exI [of _ "map parse_str ss"] allI impI)
  show "parse_symbols (JArr (map JStr ss)) = Inr (map parse_str ss)"
    by (rule parse_symbols_strs)
  show "length (map parse_str ss) = length ss" by simp
  show "spec_entry (ss ! i) (map parse_str ss ! i)" if "i < length ss" for i
    using that by (simp add: spec_entry_parse_str)
  show "fst (get_broker_and_parse_symbols env username (JArr (map JStr ss)))
          = Inr (broker, Some (map parse_str ss), None)"
    if "get_api_key_for_tradingview env username = Inr api_key \<and> str_truthy api_key
        \<and> get_broker_name env api_key = Inr broker \<and> str_truthy broker"
    for env username api_key broker
    using that by (simp add: helper_parsed parse_symbols_strs)
  have "parse_symbols (JArr (map JStr [''NSE:INFY'', ''TCS'']))
          = Inr (map parse_str [''NSE:INFY'', ''TCS''])"
    by (rule parse_symbols_strs)
  then show "parse_symbols (JArr [JStr ''NSE:INFY'', JStr ''TCS''])
       = Inr [JObj [(''exchange'', JStr ''NSE''), (''symbol'', JStr ''INFY'')],
              JObj [(''exchange'', JStr ''NSE''), (''symbol'', JStr ''TCS'')]]"
    by (simp add: parse_str_def entry_def)
qed

theorem parse_symbols_of_strings_witness:
  "parse_symbols (JArr (map JStr [''BSE:SBIN'', ''A:B:C'']))
     = Inr [JObj [(''exchange'', JStr ''BSE''), (''symbol'', JStr ''SBIN'')],
            JObj [(''exchange'', JStr ''A''), (''symbol'', JStr ''B:C'')]]
   \<and> spec_entry ''BSE:SBIN'' (JObj [(''exchange'', JStr ''BSE''), (''symbol'', JStr ''SBIN'')])
   \<and> spec_entry ''A:B:C'' (JObj [(''exchange'', JStr ''A''), (''symbol'', JStr ''B:C'')])
   \<and> fst (get_broker_and_parse_symbols demo_env (Some ''alice'')
            (JArr (map JStr [''BSE:SBIN'', ''A:B:C''])))
       = Inr (Some ''zerodha'',
              Some [JObj [(''exchange'', JStr ''BSE''), (''symbol'', JStr ''SBIN'')],
                    JObj [(''exchange'', JStr ''A''), (''symbol'', JStr ''B:C'')]],
              None)"
proof -
  let ?ss = "[''BSE:SBIN'', ''A:B:C'']"
  let ?out = "[JObj [(''exchange'', JStr ''BSE''), (''symbol'', JStr ''SBIN'')],
               JObj [(''exchange'', JStr ''A''), (''symbol'', JStr ''B:C'')]]"
  from parse_symbols_of_strings [of ?ss] obtain ps where
    ps: "parse_symbols (JArr (map JStr ?ss)) = Inr ps"
    and each: "\<forall>i<length ?ss. spec_entry (?ss ! i) (ps ! i)"
    and helper: "\<forall>env username api_key broker.
              get_api_key_for_tradingview env username = Inr api_key \<and> str_truthy api_key
              \<and> get_broker_name env api_key = Inr broker \<and> str_truthy broker
              \<longrightarrow> fst (get_broker_and_parse_symbols env username (JArr (map JStr ?ss)))
                    = Inr (broker, Some ps, None)"
    by blast
  have val: "parse_symbols (JArr (map JStr ?ss)) = Inr ?out"
    by (simp add: parse_symbols_def parse_symbol_def split1_def entry_def)
  with ps have eq: "ps = ?out" by simp
  have "spec_entry (?ss ! 0) (ps ! 0)" and "spec_entry (?ss ! 1) (ps ! 1)"
    using each [rule_format, of 0] each [rule_format, of 1] by simp_all
  with eq have e0: "spec_entry ''BSE:SBIN'' (JObj [(''exchange'', JStr ''BSE''), (''symbol'', JStr ''SBIN'')])"
    and e1: "spec_entry ''A:B:C'' (JObj [(''exchange'', JStr ''A''), (''symbol'', JStr ''B:C'')])"
    by simp_all
  have "get_api_key_for_tradingview demo_env (Some ''alice'') = Inr (Some ''key1'')
        \<and> str_truthy (Some ''key1'')
        \<and> get_broker_name demo_env (Some ''key1'') = Inr (Some ''zerodha'')
        \<and> str_truthy (Some ''zerodha'')"
    by (simp add: demo_env_def)
  with helper eq have
    "fst (get_broker_and_parse_symbols demo_env (Some ''alice'') (JArr (map JStr ?ss)))
       = Inr (Some ''zerodha'', Some ?out, None)"
    by blast
  with val e0 e1 show ?thesis by blast
qed

text \<open>
  C2. For a logged-in user, a list of symbol strings that is not empty and a
  successful lookup of API key and broker: when \<open>subscribe_to_symbols\<close> returns,
  the response of \<open>subscribe\<close> has the status code and the payload it returned,
  whatever the success flag, and the calls are the two lookups and that one call; the
  same for \<open>unsubscribe\<close> and \<open>unsubscribe_from_symbols\<close>. Neither route depends on
  the other route's function.
\<close>

theorem subscribe_mirrors_collaborator:
  assumes "logged_in env req"
    and "req_json req = Inr (JObj kvs)"
    and "map_of kvs ''symbols'' = Some (JArr (map JStr ss))" and "ss \<noteq> []"
    and "get_api_key_for_tradingview env (session_user req) = Inr api_key" and "str_truthy api_key"
    and "get_broker_name env api_key = Inr broker" and "str_truthy broker"
    and "parse_symbols (JArr (map JStr ss)) = Inr ps"
  shows "(subscribe_to_symbols env (session_user req) broker (Some ps) = Inr (ok, payload, code)
            \<longrightarrow> subscribe env req =
                  (Inr \<lparr>resp_status = code, resp_body = Json payload\<rparr>,
                   [Get_api_key_for_tradingview (session_user req), Get_broker_name api_key,
                    Subscribe_to_symbols (session_user req) broker (Some ps)]))
       \<and> (unsubscribe_from_symbols env (session_user req) broker (Some ps) = Inr (ok', payload', code')
            \<longrightarrow> unsubscribe env req =
                  (Inr \<lparr>resp_status = code', resp_body = Json payload'\<rparr>,
                   [Get_api_key_for_tradingview (session_user req), Get_broker_name api_key,
                    Unsubscribe_from_symbols (session_user req) broker (Some ps)]))"
proof (intro conjI impI)
  have h: "get_broker_and_parse_symbols env (session_user req) (JArr (map JStr ss)) =
     (Inr (broker, Some ps, None),
      [Get_api_key_for_tradingview (session_user req), Get_broker_name api_key])"
    using assms(5-9) by (rule helper_parsed)
  have e: "\<not> str_truthy None" by simp
  show "subscribe env req =
          (Inr \<lparr>resp_status = code, resp_body = Json payload\<rparr>,
           [Get_api_key_for_tradingview (session_user req), Get_broker_name api_key,
            Subscribe_to_symbols (session_user req) broker (Some ps)])"
    if "subscribe_to_symbols env (session_user req) broker (Some ps) = Inr (ok, payload, code)"
    using assms(1-4) h that
    by (simp add: logged_in_def subscribe_def guarded_admitted subscribe_view_def io_simps
          response_simps Let_def)
  show "unsubscribe env req =
          (Inr \<lparr>resp_status = code', resp_body = Json payload'\<rparr>,
           [Get_api_key_for_tradingview (session_user req), Get_broker_name api_key,
            Unsubscribe_from_symbols (session_user req) broker (Some ps)])"
    if "unsubscribe_from_symbols env (session_user req) broker (Some ps) = Inr (ok', payload', code')"
    using assms(1-4) h that
    by (simp add: logged_in_def unsubscribe_def guarded_admitted unsubscribe_view_def io_simps
          response_simps Let_def)
qed

theorem subscribe_mirrors_collaborator_witness:
  "subscribe (demo_env\<lparr>unsubscribe_from_symbols := (\<lambda>u b ps. Inl ''down'')\<rparr>)
     (post_request (Some ''alice'') (JObj [(''symbols'', JArr [JStr ''NSE:INFY'', JStr ''TCS''])]))
     = (Inr \<lparr>resp_status = 207, resp_body = Json (JObj [(''status'', JStr ''partial'')])\<rparr>,
        [Get_api_key_for_tradingview (Some ''alice''), Get_broker_name (Some ''key1''),
         Subscribe_to_symbols (Some ''alice'') (Some ''zerodha'')
           (Some [JObj [(''exchange'', JStr ''NSE''), (''symbol'', JStr ''INFY'')],
                  JObj [(''exchange'', JStr ''NSE''), (''symbol'', JStr ''TCS'')]])])
   \<and> unsubscribe (demo_env\<lparr>subscribe_to_symbols := (\<lambda>u b ps. Inl ''down'')\<rparr>)
     (post_request (Some ''alice'') (JObj [(''symbols'', JArr [JStr ''NSE:INFY'', JStr ''TCS''])]))
     = (Inr \<lparr>resp_status = 200, resp_body = Json (JObj [(''status'', JStr ''ok'')])\<rparr>,
        [Get_api_key_for_tradingview (Some ''alice''), Get_broker_name (Some ''key1''),
         Unsubscribe_from_symbols (Some ''alice'') (Some ''zerodha'')
           (Some [JObj [(''exchange'', JStr ''NSE''), (''symbol'', JStr ''INFY'')],
                  JObj [(''exchange'', JStr ''NSE''), (''symbol'', JStr ''TCS'')]])])"
proof -
  let ?req = "post_request (Some ''alice'') (JObj [(''symbols'', JArr [JStr ''NSE:INFY'', JStr ''TCS''])])"
  let ?ps = "[JObj [(''exchange'', JStr ''NSE''), (''symbol'', JStr ''INFY'')],
              JObj [(''exchange'', JStr ''NSE''), (''symbol'', JStr ''TCS'')]]"
  let ?e1 = "demo_env\<lparr>unsubscribe_from_symbols := (\<lambda>u b ps. Inl ''down'')\<rparr>"
  let ?e2 = "demo_env\<lparr>subscribe_to_symbols := (\<lambda>u b ps. Inl ''down'')\<rparr>"
  have su: "session_user ?req = Some ''alice''" by (simp add: post_request_def)
  have 2: "req_json ?req = Inr (JObj [(''symbols'', JArr [JStr ''NSE:INFY'', JStr ''TCS''])])"
    by (simp add: post_request_def)
  have 3: "map_of [(''symbols'', JArr [JStr ''NSE:INFY'', JStr ''TCS''])] ''symbols''
             = Some (JArr (map JStr [''NSE:INFY'', ''TCS'']))" by simp
  have 4: "[''NSE:INFY'', ''TCS''] \<noteq> []" by simp
  have 6: "str_truthy (Some ''key1'')" by simp
  have 8: "str_truthy (Some ''zerodha'')" by simp
  have 9: "parse_symbols (JArr (map JStr [''NSE:INFY'', ''TCS''])) = Inr ?ps"
    by (simp add: parse_symbols_def parse_symbol_def split1_def entry_def)
  have a1: "logged_in ?e1 ?req" by (simp add: logged_in_def demo_env_def post_request_def)
  have a5: "get_api_key_for_tradingview ?e1 (session_user ?req) = Inr (Some ''key1'')"
    by (simp add: demo_env_def post_request_def)
  have a7: "get_broker_name ?e1 (Some ''key1'') = Inr (Some ''zerodha'')"
    by (simp add: demo_env_def)
  have a10: "subscribe_to_symbols ?e1 (session_user ?req) (Some ''zerodha'') (Some ?ps)
              = Inr (False, JObj [(''status'', JStr ''partial'')], 207)"
    by (simp add: demo_env_def)
  have b1: "logged_in ?e2 ?req" by (simp add: logged_in_def demo_env_def post_request_def)
  have b5: "get_api_key_for_tradingview ?e2 (session_user ?req) = Inr (Some ''key1'')"
    by (simp add: demo_env_def post_request_def)
  have b7: "get_broker_name ?e2 (Some ''key1'') = Inr (Some ''zerodha'')"
    by (simp add: demo_env_def)
  have b11: "unsubscribe_from_symbols ?e2 (session_user ?req) (Some ''zerodha'') (Some ?ps)
              = Inr (True, JObj [(''status'', JStr ''ok'')], 200)"
    by (simp add: demo_env_def)
  from subscribe_mirrors_collaborator [OF a1 2 3 4 a5 6 a7 8 9] a10
  have s: "subscribe ?e1 ?req =
     (Inr \<lparr>resp_status = 207, resp_body = Json (JObj [(''status'', JStr ''partial'')])\<rparr>,
      [Get_api_key_for_tradingview (session_user ?req), Get_broker_name (Some ''key1''),
       Subscribe_to_symbols (session_user ?req) (Some ''zerodha'') (Some ?ps)])"
    by blast
  from subscribe_mirrors_collaborator [OF b1 2 3 4 b5 6 b7 8 9] b11
  have u: "unsubscribe ?e2 ?req =
     (Inr \<lparr>resp_status = 200, resp_body = Json (JObj [(''status'', JStr ''ok'')])\<rparr>,
      [Get_api_key_for_tradingview (session_user ?req), Get_broker_name (Some ''key1''),
       Unsubscribe_from_symbols (session_user ?req) (Some ''zerodha'') (Some ?ps)])"
    by blast
  from s u show ?thesis unfolding su by blast
qed



text \<open>
  C4. For a logged-in user, \<open>subscribe\<close> and \<open>unsubscribe\<close> answer a body whose
  \<open>symbols\<close> list is empty with 400 and an error body, and call nothing: the trace is
  empty, whereas every run of \<open>_get_broker_and_parse_symbols\<close>, which holds the
  lookups and the symbol loop, leaves a trace.
\<close>

theorem empty_symbols_rejected:
  assumes "logged_in env req"
    and "req_json req = Inr (JObj kvs)"
    and "map_of kvs ''symbols'' = Some (JArr [])"
  shows "subscribe env req = (Inr (error_response ''No symbols provided'' 400), [])
       \<and> unsubscribe env req = (Inr (error_response ''No symbols provided'' 400), [])
       \<and> (\<forall>u s. snd (get_broker_and_parse_symbols env u s) \<noteq> [])"
  using assms
  by (simp add: logged_in_def subscribe_def unsubscribe_def guarded_admitted
        subscribe_view_def unsubscribe_view_def io_simps response_simps helper_calls)

theorem empty_symbols_rejected_witness:
  "subscribe demo_env (post_request (Some ''alice'') (JObj [(''symbols'', JArr [])]))
     = (Inr (error_response ''No symbols provided'' 400), [])
   \<and> unsubscribe demo_env (post_request (Some ''alice'') (JObj [(''symbols'', JArr [])]))
     = (Inr (error_response ''No symbols provided'' 400), [])"
proof -
  let ?req = "post_request (Some ''alice'') (JObj [(''symbols'', JArr [])])"
  have 1: "logged_in demo_env ?req" by (simp add: logged_in_def demo_env_def post_request_def)
  have 2: "req_json ?req = Inr (JObj [(''symbols'', JArr [])])" by (simp add: post_request_def)
  have 3: "map_of [(''symbols'', JArr [])] ''symbols'' = Some (JArr [])" by simp
  from empty_symbols_rejected [OF 1 2 3] show ?thesis by blast
qed

text \<open>
  C5. For a logged-in user and a symbols list that is not empty: when the API key
  lookup returns \<open>None\<close>, \<open>subscribe\<close> and \<open>unsubscribe\<close> answer 400 with the error
  \<open>API Key not found\<close> after that one call; when it returns a key (a string that is
  not empty) for which the broker lookup returns \<open>None\<close>, they answer 400 with the
  error \<open>Broker not found\<close> after the two lookups. In both cases
  \<open>subscribe_to_symbols\<close> and \<open>unsubscribe_from_symbols\<close> are not called.
\<close>

theorem failed_lookup_rejected:
  assumes "logged_in env req"
    and "req_json req = Inr (JObj kvs)"
    and "map_of kvs ''symbols'' = Some (JArr xs)" and "xs \<noteq> []"
  shows "(get_api_key_for_tradingview env (session_user req) = Inr None \<longrightarrow>
            subscribe env req = (Inr (error_response ''API Key not found'' 400),
                                 [Get_api_key_for_tradingview (session_user req)])
          \<and> unsubscribe env req = (Inr (error_response ''API Key not found'' 400),
                                   [Get_api_key_for_tradingview (session_user req)]))
       \<and> (\<forall>k. get_api_key_for_tradingview env (session_user req) = Inr (Some k) \<and> k \<noteq> []
               \<and> get_broker_name env (Some k) = Inr None \<longrightarrow>
            subscribe env req = (Inr (error_response ''Broker not found'' 400),
                                 [Get_api_key_for_tradingview (session_user req), Get_broker_name (Some k)])
          \<and> unsubscribe env req = (Inr (error_response ''Broker not found'' 400),
                                   [Get_api_key_for_tradingview (session_user req), Get_broker_name (Some k)]))"
proof (intro conjI impI allI)
  assume key: "get_api_key_for_tradingview env (session_user req) = Inr None"
  have h: "get_broker_and_parse_symbols env (session_user req) (JArr xs) =
     (Inr (None, None, Some ''API Key not found''), [Get_api_key_for_tradingview (session_user req)])"
    by (rule helper_no_key [OF key]) simp
  show "subscribe env req = (Inr (error_response ''API Key not found'' 400),
                                 [Get_api_key_for_tradingview (session_user req)])"
    using assms h
    by (simp add: logged_in_def subscribe_def guarded_admitted subscribe_view_def io_simps
          response_simps)
  show "unsubscribe env req = (Inr (error_response ''API Key not found'' 400),
                                 [Get_api_key_for_tradingview (session_user req)])"
    using assms h
    by (simp add: logged_in_def unsubscribe_def guarded_admitted unsubscribe_view_def io_simps
          response_simps)
next
  fix k
  assume a: "get_api_key_for_tradingview env (session_user req) = Inr (Some k) \<and> k \<noteq> []
               \<and> get_broker_name env (Some k) = Inr None"
  have h: "get_broker_and_parse_symbols env (session_user req) (JArr xs) =
     (Inr (None, None, Some ''Broker not found''),
      [Get_api_key_for_tradingview (session_user req), Get_broker_name (Some k)])"
  proof (rule helper_no_broker)
    show "get_api_key_for_tradingview env (session_user req) = Inr (Some k)" using a by simp
    show "str_truthy (Some k)" using a by simp
    show "get_broker_name env (Some k) = Inr None" using a by simp
    show "\<not> str_truthy None" by simp
  qed
  show "subscribe env req = (Inr (error_response ''Broker not found'' 400),
          [Get_api_key_for_tradingview (session_user req), Get_broker_name (Some k)])"
    using assms h
    by (simp add: logged_in_def subscribe_def guarded_admitted subscribe_view_def io_simps
          response_simps)
  show "unsubscribe env req = (Inr (error_response ''Broker not found'' 400),
          [Get_api_key_for_tradingview (session_user req), Get_broker_name (Some k)])"
    using assms h
    by (simp add: logged_in_def unsubscribe_def guarded_admitted unsubscribe_view_def io_simps
          response_simps)
qed

theorem failed_lookup_rejected_witness:
  "subscribe demo_env (post_request (Some ''bob'') (JObj [(''symbols'', JArr [JStr ''TCS''])]))
     = (Inr (error_response ''API Key not found'' 400), [Get_api_key_for_tradingview (Some ''bob'')])
   \<and> unsubscribe demo_env (post_request (Some ''bob'') (JObj [(''symbols'', JArr [JStr ''TCS''])]))
     = (Inr (error_response ''API Key not found'' 400), [Get_api_key_for_tradingview (Some ''bob'')])
   \<and> subscribe demo_env (post_request (Some ''carol'') (JObj [(''symbols'', JArr [JStr ''TCS''])]))
     = (Inr (error_response ''Broker not found'' 400),
        [Get_api_key_for_tradingview (Some ''carol''), Get_broker_name (Some ''key3'')])
   \<and> unsubscribe demo_env (post_request (Some ''carol'') (JObj [(''symbols'', JArr [JStr ''TCS''])]))
     = (Inr (error_response ''Broker not found'' 400),
        [Get_api_key_for_tradingview (Some ''carol''), Get_broker_name (Some ''key3'')])"
proof -
  let ?b = "JObj [(''symbols'', JArr [JStr ''TCS''])]"
  have li: "logged_in demo_env (post_request (Some u) ?b)" if "u \<noteq> []" for u
    using that by (simp add: logged_in_def demo_env_def post_request_def)
  have js: "req_json (post_request u ?b) = Inr ?b" for u
    by (simp add: post_request_def)
  have su: "session_user (post_request u ?b) = u" for u
    by (simp add: post_request_def)
  have sy: "map_of [(''symbols'', JArr [JStr ''TCS''])] ''symbols'' = Some (JArr [JStr ''TCS''])"
    by simp
  have ne: "[JStr ''TCS''] \<noteq> []" by simp
  have bob: "get_api_key_for_tradingview demo_env (Some ''bob'') = Inr None"
    by (simp add: demo_env_def)
  have carol: "get_api_key_for_tradingview demo_env (Some ''carol'') = Inr (Some ''key3'')
       \<and> ''key3'' \<noteq> [] \<and> get_broker_name demo_env (Some ''key3'') = Inr None"
    by (simp add: demo_env_def)
  have lb: "logged_in demo_env (post_request (Some ''bob'') ?b)" by (rule li) simp
  have lc: "logged_in demo_env (post_request (Some ''carol'') ?b)" by (rule li) simp
  from failed_lookup_rejected [OF lb js sy ne] bob
  have 1: "subscribe demo_env (post_request (Some ''bob'') ?b)
       = (Inr (error_response ''API Key not found'' 400), [Get_api_key_for_tradingview (Some ''bob'')])
     \<and> unsubscribe demo_env (post_request (Some ''bob'') ?b)
       = (Inr (error_response ''API Key not found'' 400), [Get_api_key_for_tradingview (Some ''bob'')])"
    by (simp only: su simp_thms)
  from failed_lookup_rejected [OF lc js sy ne] carol
  have 2: "subscribe demo_env (post_request (Some ''carol'') ?b)
       = (Inr (error_response ''Broker not found'' 400),
          [Get_api_key_for_tradingview (Some ''carol''), Get_broker_name (Some ''key3'')])
     \<and> unsubscribe demo_env (post_request (Some ''carol'') ?b)
       = (Inr (error_response ''Broker not found'' 400),
          [Get_api_key_for_tradingview (Some ''carol''), Get_broker_name (Some ''key3'')])"
    unfolding su by blast
  from 1 2 show ?thesis by blast
qed

text \<open>
  C6. For a logged-in user and a query that is not empty, when
  \<open>enhanced_search_symbols\<close> raises an exception with message \<open>m\<close>, \<open>search\<close> answers
  500 with the body \<open>{'error': m}\<close> and logs the error.
\<close>

theorem search_failure_answers_500:
  assumes "logged_in env req"
    and "strip (args_get req ''q'' []) \<noteq> []"
    and "enhanced_search_symbols env (strip (args_get req ''q'' [])) (args_get_opt req ''exchange'')
           = Inl m"
  shows "search env req =
           (Inr \<lparr>resp_status = 500, resp_body = Json (JObj [(''error'', JStr m)])\<rparr>,
            [Enhanced_search_symbols (strip (args_get req ''q'' [])) (args_get_opt req ''exchange''),
             Logger_error (''Error searching symbols: '' @ m)])"
  using assms
  by (simp add: logged_in_def search_def guarded_admitted search_view_def response_simps Let_def)

theorem search_failure_answers_500_witness:
  "search demo_env (get_request (Some ''alice'') [(''q'', '' boom ''), (''exchange'', ''NSE'')]) =
     (Inr \<lparr>resp_status = 500, resp_body = Json (JObj [(''error'', JStr ''db down'')])\<rparr>,
      [Enhanced_search_symbols ''boom'' (Some ''NSE''),
       Logger_error ''Error searching symbols: db down''])"
proof -
  let ?req = "get_request (Some ''alice'') [(''q'', '' boom ''), (''exchange'', ''NSE'')]"
  have q: "strip (args_get ?req ''q'' []) = ''boom''"
    by (simp add: get_request_def args_get_def strip_def py_isspace_def)
  have x: "args_get_opt ?req ''exchange'' = Some ''NSE''"
    by (simp add: get_request_def args_get_opt_def)
  have 1: "logged_in demo_env ?req" by (simp add: logged_in_def demo_env_def get_request_def)
  have 2: "strip (args_get ?req ''q'' []) \<noteq> []" by (simp add: q)
  have 3: "enhanced_search_symbols demo_env (strip (args_get ?req ''q'' [])) (args_get_opt ?req ''exchange'')
             = Inl ''db down''"
    by (simp add: q x demo_env_def)
  from search_failure_answers_500 [OF 1 2 3] show ?thesis by (simp add: q x)
qed

text \<open>
  C7. For a logged-in user, \<open>search\<close> with the empty string as \<open>q\<close> answers the empty
  JSON array with status 200, and \<open>enhanced_search_symbols\<close> is not called.
\<close>

theorem empty_query_answers_empty_array:
  assumes "logged_in env req"
    and "args_get req ''q'' [] = []"
  shows "search env req = (Inr \<lparr>resp_status = 200, resp_body = Json (JArr [])\<rparr>, [])"
  using assms
  by (simp add: logged_in_def search_def guarded_admitted search_view_def response_simps
        strip_def)

theorem empty_query_answers_empty_array_witness:
  "search demo_env (get_request (Some ''alice'') [(''q'', [])])
     = (Inr \<lparr>resp_status = 200, resp_body = Json (JArr [])\<rparr>, [])"
proof -
  let ?req = "get_request (Some ''alice'') [(''q'', [])]"
  have 1: "logged_in demo_env ?req" by (simp add: logged_in_def demo_env_def get_request_def)
  have 2: "args_get ?req ''q'' [] = []" by (simp add: get_request_def args_get_def)
  show ?thesis by (rule empty_query_answers_empty_array [OF 1 2])
qed

text \<open>
  C8. For a logged-in user \<open>get_subscriptions\<close> answers with the payload of
  \<open>get_websocket_subscriptions\<close> as body, with status 200 when the function reports
  success and with the function's status code when it reports failure. Without a
  session user the route answers 401 and calls nothing, be it the view that answers
  (lines 74 and 75) or the decorator, whose own answers to such a request have status
  401 by the specification.
\<close>

theorem subscriptions_route:
  "(logged_in env req
      \<and> get_websocket_subscriptions env (session_user req) = Inr (success, data, code) \<longrightarrow>
    get_subscriptions env req =
      (Inr \<lparr>resp_status = (if success then 200 else code), resp_body = Json data\<rparr>,
       [Get_websocket_subscriptions (session_user req)]))
   \<and> (\<not> str_truthy (session_user req) \<and> spec_refusal_status env \<longrightarrow>
      (\<exists>r. get_subscriptions env req = (Inr r, []) \<and> resp_status r = 401))"
proof (intro conjI impI)
  assume "logged_in env req
      \<and> get_websocket_subscriptions env (session_user req) = Inr (success, data, code)"
  then show "get_subscriptions env req =
      (Inr \<lparr>resp_status = (if success then 200 else code), resp_body = Json data\<rparr>,
       [Get_websocket_subscriptions (session_user req)])"
    by (simp add: logged_in_def get_subscriptions_def guarded_admitted
          get_subscriptions_view_def io_simps response_simps)
next
  assume a: "\<not> str_truthy (session_user req) \<and> spec_refusal_status env"
  show "\<exists>r. get_subscriptions env req = (Inr r, []) \<and> resp_status r = 401"
  proof (cases "check_session_validity env req")
    case None
    with a have "get_subscriptions env req = (Inr (error_response ''User not logged in'' 401), [])"
      by (simp add: get_subscriptions_def guarded_admitted views_without_user)
    then show ?thesis by (simp add: error_response_def)
  next
    case (Some r)
    with a have "resp_status r = 401" unfolding spec_refusal_status_def by blast
    with decorator_answer(3) [OF Some] show ?thesis by blast
  qed
qed

theorem subscriptions_route_witness:
  "get_subscriptions demo_env (get_request (Some ''alice'') []) =
     (Inr \<lparr>resp_status = 200, resp_body = Json (JObj [(''subscriptions'', JArr [])])\<rparr>,
      [Get_websocket_subscriptions (Some ''alice'')])
   \<and> get_subscriptions demo_env (get_request (Some ''bob'') []) =
     (Inr \<lparr>resp_status = 503, resp_body = Json (JObj [(''status'', JStr ''error'')])\<rparr>,
      [Get_websocket_subscriptions (Some ''bob'')])
   \<and> (\<exists>r. get_subscriptions demo_env (get_request None []) = (Inr r, []) \<and> resp_status r = 401)
   \<and> (\<exists>r. get_subscriptions (demo_env\<lparr>check_session_validity := (\<lambda>req. None)\<rparr>) (get_request None [])
            = (Inr r, []) \<and> resp_status r = 401)"
proof -
  let ?open = "demo_env\<lparr>check_session_validity := (\<lambda>req. None)\<rparr>"
  have a: "logged_in demo_env (get_request (Some ''alice'') [])
       \<and> get_websocket_subscriptions demo_env (session_user (get_request (Some ''alice'') []))
           = Inr (True, JObj [(''subscriptions'', JArr [])], 200)"
    by (simp add: logged_in_def demo_env_def get_request_def)
  have b: "logged_in demo_env (get_request (Some ''bob'') [])
       \<and> get_websocket_subscriptions demo_env (session_user (get_request (Some ''bob'') []))
           = Inr (False, JObj [(''status'', JStr ''error'')], 503)"
    by (simp add: logged_in_def demo_env_def get_request_def)
  have n: "\<not> str_truthy (session_user (get_request None [])) \<and> spec_refusal_status demo_env"
    by (simp add: get_request_def spec_refusal_status_def demo_env_def)
  have m: "\<not> str_truthy (session_user (get_request None [])) \<and> spec_refusal_status ?open"
    by (simp add: get_request_def spec_refusal_status_def)
  have su: "session_user (get_request u []) = u" for u
    by (simp add: get_request_def)
  from subscriptions_route [of demo_env "get_request (Some ''alice'') []" True _ 200] a
  have 1: "get_subscriptions demo_env (get_request (Some ''alice'') []) =
     (Inr \<lparr>resp_status = 200, resp_body = Json (JObj [(''subscriptions'', JArr [])])\<rparr>,
      [Get_websocket_subscriptions (Some ''alice'')])"
    by (simp add: su)
  from subscriptions_route [of demo_env "get_request (Some ''bob'') []" False _ 503] b
  have 2: "get_subscriptions demo_env (get_request (Some ''bob'') []) =
     (Inr \<lparr>resp_status = 503, resp_body = Json (JObj [(''status'', JStr ''error'')])\<rparr>,
      [Get_websocket_subscriptions (Some ''bob'')])"
    by (simp add: su)
  from subscriptions_route [of demo_env "get_request None []"] n
  have 3: "\<exists>r. get_subscriptions demo_env (get_request None []) = (Inr r, []) \<and> resp_status r = 401"
    by blast
  from subscriptions_route [of ?open "get_request None []"] m
  have 4: "\<exists>r. get_subscriptions ?open (get_request None []) = (Inr r, []) \<and> resp_status r = 401"
    by blast
  from 1 2 3 4 show ?thesis by blast
qed

text \<open>
  C9. For a logged-in user, \<open>search\<close> with a \<open>q\<close> of white space only answers the empty
  JSON array and does not call \<open>enhanced_search_symbols\<close>, as the view does for the
  same request with the empty string as \<open>q\<close>: the query is stripped before the test.
\<close>

theorem blank_query_answers_empty_array:
  assumes "logged_in env req"
    and "\<forall>c\<in>set (args_get req ''q'' []). py_isspace c"
  shows "search env req = (Inr \<lparr>resp_status = 200, resp_body = Json (JArr [])\<rparr>, [])
       \<and> search_view env req = search_view env (req\<lparr>req_args := (''q'', []) # req_args req\<rparr>)"
proof -
  have "strip (args_get req ''q'' []) = []"
    using assms(2) by (rule strip_blank)
  moreover have "strip [] = []" by (simp add: strip_def)
  ultimately show ?thesis
    using assms(1)
    by (simp add: logged_in_def search_def guarded_admitted search_view_def response_simps
          args_get_def)
qed

theorem blank_query_answers_empty_array_witness:
  "search demo_env (get_request (Some ''alice'') [(''q'', [CHR '' '', CHR 0x09, CHR '' ''])])
     = (Inr \<lparr>resp_status = 200, resp_body = Json (JArr [])\<rparr>, [])"
proof -
  let ?req = "get_request (Some ''alice'') [(''q'', [CHR '' '', CHR 0x09, CHR '' ''])]"
  have 1: "logged_in demo_env ?req" by (simp add: logged_in_def demo_env_def get_request_def)
  have 2: "\<forall>c\<in>set (args_get ?req ''q'' []). py_isspace c"
    by (simp add: get_request_def args_get_def py_isspace_def)
  from blank_query_answers_empty_array [OF 1 2] show ?thesis by blast
qed

text \<open>
  C10. For a logged-in user, \<open>subscribe\<close> and \<open>unsubscribe\<close> answer a JSON object
  without the key \<open>symbols\<close> with 400 and the error \<open>No symbols provided\<close>, and call
  nothing; the views do the same as for that object with an empty \<open>symbols\<close> list.
\<close>

theorem missing_symbols_key_rejected:
  assumes "logged_in env req"
    and "req_json req = Inr (JObj kvs)"
    and "map_of kvs ''symbols'' = None"
  shows "subscribe env req = (Inr (error_response ''No symbols provided'' 400), [])
       \<and> unsubscribe env req = (Inr (error_response ''No symbols provided'' 400), [])
       \<and> subscribe_view env req
           = subscribe_view env (req\<lparr>req_json := Inr (JObj ((''symbols'', JArr []) # kvs))\<rparr>)
       \<and> unsubscribe_view env req
           = unsubscribe_view env (req\<lparr>req_json := Inr (JObj ((''symbols'', JArr []) # kvs))\<rparr>)"
  using assms
  by (simp add: logged_in_def subscribe_def unsubscribe_def guarded_admitted
        subscribe_view_def unsubscribe_view_def io_simps response_simps)

theorem missing_symbols_key_rejected_witness:
  "subscribe demo_env (post_request (Some ''alice'') (JObj [(''symbol'', JStr ''TCS'')]))
     = (Inr (error_response ''No symbols provided'' 400), [])
   \<and> unsubscribe demo_env (post_request (Some ''alice'') (JObj [(''symbol'', JStr ''TCS'')]))
     = (Inr (error_response ''No symbols provided'' 400), [])"
proof -
  let ?req = "post_request (Some ''alice'') (JObj [(''symbol'', JStr ''TCS'')])"
  have 1: "logged_in demo_env ?req" by (simp add: logged_in_def demo_env_def post_request_def)
  have 2: "req_json ?req = Inr (JObj [(''symbol'', JStr ''TCS'')])" by (simp add: post_request_def)
  have 3: "map_of [(''symbol'', JStr ''TCS'')] ''symbols'' = None" by simp
  from missing_symbols_key_rejected [OF 1 2 3] show ?thesis by blast
qed

end
